theory Spec2Isabelle
  imports Complex_Main "HOL-Library.Word" "HOL-Library.Multiset"
begin

section \<open>JavaScript values used by the client and the server\<close>

subsection \<open>Strings\<close>

text \<open>
  A JavaScript string is a sequence of UTF-16 code units. ASCII literals of the
  source are written with \<open>js\<close>; the em dash of the error template of
  \<^verbatim>\<open>handleSubmit\<close> is the code unit 0x2014.
\<close>

type_synonym code_unit = "16 word"
type_synonym jsstring = "code_unit list"

definition js :: "string \<Rightarrow> jsstring" where
  "js s = map (\<lambda>c. of_nat (of_char c)) s"

text \<open>
  \<^verbatim>\<open>String.prototype.trim\<close> removes WhiteSpace and LineTerminator code points
  from both ends: TAB, LF, VT, FF, CR, SP, NBSP, the other Unicode space
  separators, LS, PS and the byte order mark.
\<close>

definition isWhiteSpace :: "code_unit \<Rightarrow> bool" where
  "isWhiteSpace c = (c \<in> set [0x9, 0xA, 0xB, 0xC, 0xD, 0x20, 0xA0, 0x1680,
     0x2000, 0x2001, 0x2002, 0x2003, 0x2004, 0x2005, 0x2006, 0x2007, 0x2008, 0x2009, 0x200A,
     0x2028, 0x2029, 0x202F, 0x205F, 0x3000, 0xFEFF])"

definition trim :: "jsstring \<Rightarrow> jsstring" where
  "trim s = rev (dropWhile isWhiteSpace (rev (dropWhile isWhiteSpace s)))"

text \<open>\<^verbatim>\<open>String(n)\<close> of a non-negative integer: its decimal digits.\<close>

function string_of_nat :: "nat \<Rightarrow> jsstring" where
  "string_of_nat n =
     (if n < 10 then [of_nat (48 + n)]
      else string_of_nat (n div 10) @ [of_nat (48 + n mod 10)])"
  by pat_completeness auto
termination
  by (relation "measure id") auto

declare string_of_nat.simps [simp del]

subsection \<open>Numbers\<close>

text \<open>
  A JavaScript number: NaN, the two infinities, or a finite value. The finite
  value is kept as the rational it denotes; the two zeros are one value \<open>Fin 0\<close>
  (they compare equal and are both falsy).
\<close>

datatype jsnum = NaN | PosInf | NegInf | Fin rat

text \<open>The relational operator \<^verbatim>\<open>a > b\<close> on numbers: false whenever NaN is involved.\<close>

fun js_gt :: "jsnum \<Rightarrow> jsnum \<Rightarrow> bool" where
  "js_gt NaN _ = False"
| "js_gt _ NaN = False"
| "js_gt PosInf PosInf = False"
| "js_gt PosInf _ = True"
| "js_gt NegInf _ = False"
| "js_gt (Fin a) PosInf = False"
| "js_gt (Fin a) NegInf = True"
| "js_gt (Fin a) (Fin b) = (b < a)"

fun js_neg :: "jsnum \<Rightarrow> jsnum" where
  "js_neg NaN = NaN"
| "js_neg PosInf = NegInf"
| "js_neg NegInf = PosInf"
| "js_neg (Fin a) = Fin (- a)"

text \<open>
  The value of a numeric literal becomes a double: magnitudes up to half the
  smallest subnormal become zero, magnitudes from the rounding limit above the
  largest double become infinite. Between the two the literal's value is kept
  as it is written (the rounding of the mantissa to 53 bits changes neither the
  sign of the number nor whether it is zero).
\<close>

definition round_double :: "rat \<Rightarrow> jsnum" where
  "round_double r =
     (if \<bar>r\<bar> \<le> 1 / 2 ^ 1075 then Fin 0
      else if 2 ^ 1024 - 2 ^ 970 \<le> \<bar>r\<bar> then (if 0 < r then PosInf else NegInf)
      else Fin r)"

definition digit_val :: "code_unit \<Rightarrow> nat option" where
  "digit_val c =
     (if 48 \<le> c \<and> c \<le> 57 then Some (unat c - 48)
      else if 97 \<le> c \<and> c \<le> 102 then Some (unat c - 87)
      else if 65 \<le> c \<and> c \<le> 70 then Some (unat c - 55)
      else None)"

fun parse_digits :: "nat \<Rightarrow> nat \<Rightarrow> jsstring \<Rightarrow> nat option" where
  "parse_digits b acc [] = Some acc"
| "parse_digits b acc (c # cs) =
     (case digit_val c of
        None \<Rightarrow> None
      | Some d \<Rightarrow> if d < b then parse_digits b (acc * b + d) cs else None)"

text \<open>A non-empty run of digits of base \<open>b\<close>.\<close>

definition digits :: "nat \<Rightarrow> jsstring \<Rightarrow> nat option" where
  "digits b s = (if s = [] then None else parse_digits b 0 s)"

text \<open>ExponentPart without its indicator: an optional sign and decimal digits.\<close>

definition signed_integer :: "jsstring \<Rightarrow> int option" where
  "signed_integer s =
     (case s of
        [] \<Rightarrow> None
      | c # cs \<Rightarrow>
          if c = 43 then map_option int (digits 10 cs)
          else if c = 45 then map_option (\<lambda>n. - int n) (digits 10 cs)
          else map_option int (digits 10 s))"

text \<open>
  The mantissa: \<^verbatim>\<open>DecimalDigits . DecimalDigits?\<close>, \<^verbatim>\<open>. DecimalDigits\<close> or
  \<^verbatim>\<open>DecimalDigits\<close>.
\<close>

definition mantissa :: "jsstring \<Rightarrow> rat option" where
  "mantissa m =
     (let ip = takeWhile (\<lambda>c. c \<noteq> 46) m; rest = dropWhile (\<lambda>c. c \<noteq> 46) m
      in if rest = [] then map_option of_nat (digits 10 ip)
         else let fp = tl rest
              in if ip = [] \<and> fp = [] then None
                 else (case (parse_digits 10 0 ip, parse_digits 10 0 fp) of
                         (Some i, Some f) \<Rightarrow> Some (of_nat i + of_nat f / 10 ^ length fp)
                       | _ \<Rightarrow> None))"

definition is_exp_indicator :: "code_unit \<Rightarrow> bool" where
  "is_exp_indicator c = (c = 101 \<or> c = 69)"

text \<open>StrUnsignedDecimalLiteral.\<close>

definition unsigned_decimal :: "jsstring \<Rightarrow> jsnum" where
  "unsigned_decimal s =
     (if s = js ''Infinity'' then PosInf
      else
        let m = takeWhile (\<lambda>c. \<not> is_exp_indicator c) s;
            x = dropWhile (\<lambda>c. \<not> is_exp_indicator c) s
        in (case mantissa m of
              None \<Rightarrow> NaN
            | Some v \<Rightarrow>
                if x = [] then round_double v
                else (case signed_integer (tl x) of
                        None \<Rightarrow> NaN
                      | Some e \<Rightarrow>
                          if 0 \<le> e then round_double (v * 10 ^ nat e)
                          else round_double (v / 10 ^ nat (- e)))))"

text \<open>NonDecimalIntegerLiteral: \<^verbatim>\<open>0x\<close>, \<^verbatim>\<open>0o\<close> or \<^verbatim>\<open>0b\<close> and digits of that base.\<close>

definition non_decimal :: "jsstring \<Rightarrow> jsnum option" where
  "non_decimal s =
     (case s of
        z # p # ds \<Rightarrow>
          if z \<noteq> 48 then None
          else
            let base = (if p = 120 \<or> p = 88 then Some (16::nat)
                        else if p = 111 \<or> p = 79 then Some 8
                        else if p = 98 \<or> p = 66 then Some 2
                        else None)
            in (case base of
                  None \<Rightarrow> None
                | Some b \<Rightarrow>
                    (case digits b ds of
                       None \<Rightarrow> Some NaN
                     | Some n \<Rightarrow> Some (round_double (of_nat n))))
      | _ \<Rightarrow> None)"

text \<open>
  \<^verbatim>\<open>Number(s)\<close> on a string (StringToNumber): white space is stripped, the empty
  string is 0, a numeric literal is its value, anything else is NaN.
\<close>

definition Number :: "jsstring \<Rightarrow> jsnum" where
  "Number s =
     (let t = trim s
      in if t = [] then Fin 0
         else (case non_decimal t of
                 Some n \<Rightarrow> n
               | None \<Rightarrow>
                   if hd t = 43 then unsigned_decimal (tl t)
                   else if hd t = 45 then js_neg (unsigned_decimal (tl t))
                   else unsigned_decimal t))"

section \<open>The product submission form (AddProductForm.tsx)\<close>

text \<open>The \<^verbatim>\<open>useState\<close> cells of the component.\<close>

record form =
  title :: jsstring
  price :: jsstring
  description :: jsstring
  category :: jsstring
  imageB64 :: jsstring
  previewSrc :: jsstring
  submitting :: bool
  error :: "jsstring option"
  success :: "jsstring option"

definition initial_form :: form where
  "initial_form = \<lparr>title = [], price = [], description = [], category = [],
     imageB64 = [], previewSrc = [], submitting = False, error = None, success = None\<rparr>"

definition allValid :: "form \<Rightarrow> bool" where
  "allValid s =
     (length (trim (title s)) > 0 \<and>
      js_gt (Number (price s)) (Fin 0) \<and>
      length (trim (description s)) > 0 \<and>
      length (trim (category s)) > 0 \<and>
      length (trim (imageB64 s)) > 0 \<and>
      \<not> submitting s)"

definition resetForm :: "form \<Rightarrow> form" where
  "resetForm s = s\<lparr>title := [], price := [], description := [], category := [],
     imageB64 := [], previewSrc := []\<rparr>"

text \<open>\<^verbatim>\<open>ProductPayload\<close>, the body of the create request.\<close>

record payload =
  payload_title :: jsstring
  payload_price :: jsnum
  payload_description :: jsstring
  payload_image :: jsstring
  payload_category :: jsstring

definition build_payload :: "form \<Rightarrow> payload" where
  "build_payload s = \<lparr>payload_title = trim (title s), payload_price = Number (price s),
     payload_description = trim (description s), payload_image = imageB64 s,
     payload_category = trim (category s)\<rparr>"

text \<open>
  How an awaited promise settles. A rejection carries \<^verbatim>\<open>err?.message\<close> of the
  thrown value: \<open>None\<close> when the value or its message is null or undefined.
\<close>

datatype 'a settled = Fulfilled 'a | Rejected "jsstring option"

text \<open>What \<^verbatim>\<open>handleSubmit\<close> reads of the \<^verbatim>\<open>fetch\<close> response.\<close>

record 'd fetch_response =
  res_ok :: bool
  res_status :: nat
  res_text :: "jsstring settled"
  res_json :: "'d settled"

text \<open>
  The optional \<^verbatim>\<open>onSuccess\<close> callback acts on the state of the parent
  component; it returns or throws.
\<close>

datatype 'p called = Returned 'p | Threw "jsstring option" 'p

subsubsection \<open>handleImageChange\<close>

record picked_file =
  file_type :: jsstring

definition startsWith :: "jsstring \<Rightarrow> jsstring \<Rightarrow> bool" where
  "startsWith s pre = (take (length pre) s = pre)"

text \<open>
  Up to the \<^verbatim>\<open>await\<close>: the result says whether a read of the file was started.
\<close>

definition handleImageChange_start :: "picked_file option \<Rightarrow> form \<Rightarrow> form \<times> bool" where
  "handleImageChange_start f s =
     (case f of
        None \<Rightarrow> (s, False)
      | Some fl \<Rightarrow>
          if \<not> startsWith (file_type fl) (js ''image/'')
          then (s\<lparr>error := Some (js ''Please choose a valid image file.'')\<rparr>, False)
          else (s\<lparr>error := None\<rparr>, True))"

text \<open>After the \<^verbatim>\<open>await\<close>: \<^verbatim>\<open>fileToBase64\<close> has settled.\<close>

definition handleImageChange_done :: "jsstring settled \<Rightarrow> form \<Rightarrow> form" where
  "handleImageChange_done r s =
     (case r of
        Fulfilled base64 \<Rightarrow> s\<lparr>imageB64 := base64, previewSrc := base64\<rparr>
      | Rejected m \<Rightarrow> s\<lparr>error := Some (js ''Failed to read image file.'')\<rparr>)"

subsubsection \<open>handleSubmit\<close>

text \<open>Up to the \<^verbatim>\<open>await fetch\<close>: the flags are set and the request leaves.\<close>

definition handleSubmit_start :: "form \<Rightarrow> form \<times> payload" where
  "handleSubmit_start s =
     (s\<lparr>submitting := True, error := None, success := None\<rparr>, build_payload s)"

text \<open>The \<^verbatim>\<open>catch\<close> block: \<^verbatim>\<open>setError(err?.message ?? "Failed to submit product.")\<close>.\<close>

definition catch_submit :: "jsstring option \<Rightarrow> form \<Rightarrow> form" where
  "catch_submit m s =
     s\<lparr>error := Some (case m of None \<Rightarrow> js ''Failed to submit product.'' | Some t \<Rightarrow> t)\<rparr>"

text \<open>The message of the error thrown on a response that is not ok.\<close>

definition http_error_message :: "nat \<Rightarrow> jsstring \<Rightarrow> jsstring" where
  "http_error_message st txt = js ''HTTP '' @ string_of_nat st @ [0x20, 0x2014, 0x20] @ txt"

text \<open>
  From the settling of \<^verbatim>\<open>fetch\<close> to the end of the \<^verbatim>\<open>try\<close> and \<^verbatim>\<open>catch\<close>
  blocks, on the form and the parent's state.
\<close>

definition submit_outcome ::
  "('d \<Rightarrow> 'p \<Rightarrow> 'p called) option \<Rightarrow> 'd fetch_response settled \<Rightarrow> form \<Rightarrow> 'p \<Rightarrow> form \<times> 'p" where
  "submit_outcome onSuccess outcome s parent =
     (case outcome of
        Rejected m \<Rightarrow> (catch_submit m s, parent)
      | Fulfilled res \<Rightarrow>
          if \<not> res_ok res then
            (case res_text res of
               Rejected m \<Rightarrow> (catch_submit m s, parent)
             | Fulfilled txt \<Rightarrow>
                 (catch_submit (Some (http_error_message (res_status res) txt)) s, parent))
          else
            (case res_json res of
               Rejected m \<Rightarrow> (catch_submit m s, parent)
             | Fulfilled data \<Rightarrow>
                 let s1 = s\<lparr>success := Some (js ''Product created successfully!'')\<rparr>
                 in (case onSuccess of
                       None \<Rightarrow> (resetForm s1, parent)
                     | Some cb \<Rightarrow>
                         (case cb data parent of
                            Threw m parent' \<Rightarrow> (catch_submit m s1, parent')
                          | Returned parent' \<Rightarrow> (resetForm s1, parent')))))"

text \<open>The rest of \<^verbatim>\<open>handleSubmit\<close>, with its \<^verbatim>\<open>finally\<close> block.\<close>

definition handleSubmit_settle ::
  "('d \<Rightarrow> 'p \<Rightarrow> 'p called) option \<Rightarrow> 'd fetch_response settled \<Rightarrow> form \<Rightarrow> 'p \<Rightarrow> form \<times> 'p" where
  "handleSubmit_settle onSuccess outcome s parent =
     (let (s', parent') = submit_outcome onSuccess outcome s parent
      in (s'\<lparr>submitting := False\<rparr>, parent'))"

text \<open>One attempt from the submit event to the end of \<^verbatim>\<open>handleSubmit\<close>.\<close>

definition submit_attempt ::
  "('d \<Rightarrow> 'p \<Rightarrow> 'p called) option \<Rightarrow> 'd fetch_response settled \<Rightarrow> form \<Rightarrow> 'p \<Rightarrow> form \<times> 'p" where
  "submit_attempt onSuccess outcome s parent =
     handleSubmit_settle onSuccess outcome (fst (handleSubmit_start s)) parent"

subsection \<open>The rendered form as a transition system\<close>

text \<open>The submit button carries \<^verbatim>\<open>disabled={!allValid}\<close>.\<close>

definition submit_disabled :: "form \<Rightarrow> bool" where
  "submit_disabled s = (\<not> allValid s)"

text \<open>
  The component together with what is pending around it: the state of the
  parent, the create requests sent and not yet settled, and the file reads
  started and not yet settled.
\<close>

record 'p page =
  form_of :: form
  parent_of :: 'p
  inflight :: nat
  reading :: nat

definition initial_page :: "'p \<Rightarrow> 'p page" where
  "initial_page p = \<lparr>form_of = initial_form, parent_of = p, inflight = 0, reading = 0\<rparr>"

text \<open>
  The events of the form: the \<^verbatim>\<open>onChange\<close> handlers of the inputs, the file
  input and the settling of its read, the form's \<^verbatim>\<open>onSubmit\<close>, the settling
  of the create request, and the Reset button.
\<close>

datatype 'd event =
    SetTitle jsstring
  | SetPrice jsstring
  | SetDescription jsstring
  | SetCategory jsstring
  | ImageChange "picked_file option"
  | FileRead "jsstring settled"
  | Submit
  | FetchSettled "'d fetch_response settled"
  | Reset

text \<open>
  \<open>fire\<close> is \<open>None\<close> where the event cannot happen: a form whose submit button
  is disabled is not submitted by the browser, neither by a click nor by the
  Enter key, and only a pending request or read can settle. The browser's own
  validation of the \<^verbatim>\<open>required\<close> inputs can only keep further submissions from
  happening.
\<close>

fun fire :: "('d \<Rightarrow> 'p \<Rightarrow> 'p called) option \<Rightarrow> 'd event \<Rightarrow> 'p page \<Rightarrow> 'p page option" where
  "fire cb (SetTitle v) st = Some (st\<lparr>form_of := (form_of st)\<lparr>title := v\<rparr>\<rparr>)"
| "fire cb (SetPrice v) st = Some (st\<lparr>form_of := (form_of st)\<lparr>price := v\<rparr>\<rparr>)"
| "fire cb (SetDescription v) st = Some (st\<lparr>form_of := (form_of st)\<lparr>description := v\<rparr>\<rparr>)"
| "fire cb (SetCategory v) st = Some (st\<lparr>form_of := (form_of st)\<lparr>category := v\<rparr>\<rparr>)"
| "fire cb (ImageChange f) st =
     (let (s', started) = handleImageChange_start f (form_of st)
      in Some (st\<lparr>form_of := s',
                   reading := (if started then Suc (reading st) else reading st)\<rparr>))"
| "fire cb (FileRead r) st =
     (if reading st = 0 then None
      else Some (st\<lparr>form_of := handleImageChange_done r (form_of st),
                     reading := reading st - 1\<rparr>))"
| "fire cb Submit st =
     (if submit_disabled (form_of st) then None
      else Some (st\<lparr>form_of := fst (handleSubmit_start (form_of st)),
                     inflight := Suc (inflight st)\<rparr>))"
| "fire cb (FetchSettled outcome) st =
     (if inflight st = 0 then None
      else let (s', p') = handleSubmit_settle cb outcome (form_of st) (parent_of st)
           in Some (st\<lparr>form_of := s', parent_of := p', inflight := inflight st - 1\<rparr>))"
| "fire cb Reset st = Some (st\<lparr>form_of := resetForm (form_of st)\<rparr>)"

inductive reachable :: "('d \<Rightarrow> 'p \<Rightarrow> 'p called) option \<Rightarrow> 'p page \<Rightarrow> bool"
  for cb :: "('d \<Rightarrow> 'p \<Rightarrow> 'p called) option" where
  reachable_init: "reachable cb (initial_page p)"
| reachable_step: "reachable cb st \<Longrightarrow> fire cb (e :: 'd event) st = Some st' \<Longrightarrow> reachable cb st'"

fun run :: "('d \<Rightarrow> 'p \<Rightarrow> 'p called) option \<Rightarrow> 'd event list \<Rightarrow> 'p page \<Rightarrow> 'p page option" where
  "run cb [] st = Some st"
| "run cb (e # es) st = (case fire cb e st of None \<Rightarrow> None | Some st' \<Rightarrow> run cb es st')"

subsection \<open>Failed and successful attempts\<close>

text \<open>A submission fails by a network rejection or a status that is not a success.\<close>

definition failed :: "'d fetch_response settled \<Rightarrow> bool" where
  "failed outcome = (case outcome of Rejected m \<Rightarrow> True | Fulfilled res \<Rightarrow> \<not> res_ok res)"

text \<open>A successful response: the status is a success and the body parses.\<close>

definition succeeded :: "'d fetch_response settled \<Rightarrow> bool" where
  "succeeded outcome =
     (case outcome of
        Rejected m \<Rightarrow> False
      | Fulfilled res \<Rightarrow> res_ok res \<and> (case res_json res of Fulfilled d \<Rightarrow> True | Rejected m \<Rightarrow> False))"

text \<open>The message a failed submission leaves in \<^verbatim>\<open>error\<close>.\<close>

definition failure_message :: "'d fetch_response settled \<Rightarrow> jsstring" where
  "failure_message outcome =
     (let dflt = (\<lambda>m. case m of None \<Rightarrow> js ''Failed to submit product.'' | Some t \<Rightarrow> t)
      in case outcome of
           Rejected m \<Rightarrow> dflt m
         | Fulfilled res \<Rightarrow>
             (case res_text res of
                Rejected m \<Rightarrow> dflt m
              | Fulfilled txt \<Rightarrow> http_error_message (res_status res) txt))"

definition field_state ::
  "form \<Rightarrow> jsstring \<times> jsstring \<times> jsstring \<times> jsstring \<times> jsstring \<times> jsstring" where
  "field_state s = (title s, price s, description s, category s, imageB64 s, previewSrc s)"

subsection \<open>The validity predicate in the words of the specification\<close>

text \<open>A text is blank when it is empty or consists of white space only.\<close>

definition blank :: "jsstring \<Rightarrow> bool" where
  "blank s = list_all isWhiteSpace s"

definition price_positive :: "form \<Rightarrow> bool" where
  "price_positive s = js_gt (Number (price s)) (Fin 0)"

definition image_present :: "form \<Rightarrow> bool" where
  "image_present s = (\<not> blank (imageB64 s))"

definition spec_invalid :: "form \<Rightarrow> bool" where
  "spec_invalid s =
     (blank (title s) \<or> blank (description s) \<or> blank (category s) \<or>
      \<not> price_positive s \<or> \<not> image_present s \<or> submitting s)"

section \<open>The catalog viewer (the products page)\<close>

text \<open>
  \<^verbatim>\<open>Product\<close>, with its optional rating. The created record is typed
  \<^verbatim>\<open>ProductResponse\<close>, which declares no rating, but it is the parsed body of
  the response under an unchecked cast, so it is a product that may carry one.
\<close>

record rating =
  rate :: jsnum
  count :: jsnum

record product =
  product_id :: jsnum
  product_title :: jsstring
  product_category :: jsstring
  product_price :: jsnum
  product_description :: jsstring
  product_image :: jsstring
  product_rating :: "rating option"

definition zero_rating :: rating where
  "zero_rating = \<lparr>rate = Fin 0, count = Fin 0\<rparr>"

text \<open>
  The state update of the \<^verbatim>\<open>onSuccess\<close> callback:
  \<^verbatim>\<open>(prev) => [{ ...created, rating: { rate: 0, count: 0 } }, ...prev]\<close>.
\<close>

definition onSuccess :: "product \<Rightarrow> product list \<Rightarrow> product list" where
  "onSuccess created prev = created\<lparr>product_rating := Some zero_rating\<rparr> # prev"

text \<open>The callback as the page hands it to the form.\<close>

definition page_callback :: "(product \<Rightarrow> product list \<Rightarrow> product list called) option" where
  "page_callback = Some (\<lambda>created prev. Returned (onSuccess created prev))"

text \<open>
  The rating the specification expects on the stored record: the zero rating
  when the created record has none, the supplied one otherwise.
\<close>

definition spec_stored_rating :: "product \<Rightarrow> rating option" where
  "spec_stored_rating created =
     (case product_rating created of None \<Rightarrow> Some zero_rating | Some r \<Rightarrow> Some r)"

section \<open>The product resource API (backend/src/routes/products.ts)\<close>

subsection \<open>Request bodies\<close>

text \<open>A value of a JSON body, as \<^verbatim>\<open>express.json()\<close> parses it.\<close>

datatype json =
    JNull
  | JBool bool
  | JNum jsnum
  | JStr jsstring
  | JArr "json list"
  | JObj "(jsstring \<times> json) list"

text \<open>
  The five properties the handlers destructure from \<^verbatim>\<open>req.body\<close>, the parsed
  JSON body of the request; \<open>None\<close> is \<^verbatim>\<open>undefined\<close>, the property is absent
  from the body.
\<close>

record body =
  body_name :: "json option"
  body_price :: "json option"
  body_description :: "json option"
  body_category :: "json option"
  body_image :: "json option"

text \<open>
  Truthiness, as \<^verbatim>\<open>!x\<close> tests it: \<^verbatim>\<open>undefined\<close>, \<^verbatim>\<open>null\<close>, \<^verbatim>\<open>false\<close>, zero,
  NaN and the empty string are falsy, every other value is truthy.
\<close>

fun truthy :: "json option \<Rightarrow> bool" where
  "truthy None = False"
| "truthy (Some JNull) = False"
| "truthy (Some (JBool b)) = b"
| "truthy (Some (JNum n)) = (n \<noteq> Fin 0 \<and> n \<noteq> NaN)"
| "truthy (Some (JStr s)) = (s \<noteq> [])"
| "truthy (Some (JArr vs)) = True"
| "truthy (Some (JObj kvs)) = True"

text \<open>\<^verbatim>\<open>x ?? null\<close>.\<close>

fun or_null :: "json option \<Rightarrow> json" where
  "or_null None = JNull"
| "or_null (Some v) = v"

subsection \<open>The products table behind the connection pool\<close>

text \<open>
  Modelled from the spec: the \<^verbatim>\<open>pool\<close> of the module \<^verbatim>\<open>../db\<close> and the
  \<^verbatim>\<open>products\<close> table it reaches are not among the sources. A row has a
  server-assigned, unique integer identifier and the columns name, price,
  description, category and image; a column holds the value it was given.
\<close>

record row =
  row_id :: nat
  row_name :: json
  row_price :: json
  row_description :: json
  row_category :: json
  row_image :: json

text \<open>
  Modelled from the spec: the state of the data-access layer. \<open>table\<close> holds the
  rows in insertion order and \<open>auto_inc\<close> the next identifier to assign.
  \<open>id_eq\<close> is the database's comparison of a textual parameter with the
  integer identifier column. A data-access call may fault at any time:
  \<open>upcoming\<close> lists, for the calls to come, whether each faults (none does once
  the list is used up), and \<open>fault_count\<close> counts the calls that have faulted.
\<close>

record pool =
  table :: "row list"
  auto_inc :: nat
  id_eq :: "jsstring \<Rightarrow> nat \<Rightarrow> bool"
  upcoming :: "bool list"
  fault_count :: nat

text \<open>
  The identifier bound to \<^verbatim>\<open>WHERE id = ?\<close>: the number \<^verbatim>\<open>insertId\<close> or the
  text of the route parameter \<^verbatim>\<open>req.params.id\<close>.
\<close>

datatype sql_id = IdNum nat | IdStr jsstring

fun matches :: "pool \<Rightarrow> sql_id \<Rightarrow> row \<Rightarrow> bool" where
  "matches p (IdNum n) r = (row_id r = n)"
| "matches p (IdStr s) r = id_eq p s (row_id r)"

text \<open>The statements the router sends, with their bound parameters.\<close>

datatype select_stmt =
    SelectAllOrderByIdDesc
  | SelectWhereId sql_id

datatype write_stmt =
    InsertProduct "json option" "json option" "json option" "json option" json
  | UpdateWhereId "json option" "json option" "json option" "json option" json sql_id
  | DeleteWhereId sql_id

text \<open>The result header of a writing statement.\<close>

record header =
  insertId :: nat
  affectedRows :: nat

text \<open>The driver binds \<^verbatim>\<open>undefined\<close> and \<^verbatim>\<open>null\<close> as SQL NULL.\<close>

fun sql_value :: "json option \<Rightarrow> json" where
  "sql_value None = JNull"
| "sql_value (Some v) = v"

text \<open>Modelled from the spec: the row an INSERT adds, and what an UPDATE does to a row.\<close>

definition new_row ::
  "nat \<Rightarrow> json option \<Rightarrow> json option \<Rightarrow> json option \<Rightarrow> json option \<Rightarrow> json \<Rightarrow> row" where
  "new_row i n pr d c im = \<lparr>row_id = i, row_name = sql_value n, row_price = sql_value pr,
     row_description = sql_value d, row_category = sql_value c, row_image = im\<rparr>"

definition set_columns ::
  "json option \<Rightarrow> json option \<Rightarrow> json option \<Rightarrow> json option \<Rightarrow> json \<Rightarrow> row \<Rightarrow> row" where
  "set_columns n pr d c im r = r\<lparr>row_name := sql_value n, row_price := sql_value pr,
     row_description := sql_value d, row_category := sql_value c, row_image := im\<rparr>"

text \<open>
  Modelled from the spec: what the statements do to the table when they run.
  The rows an UPDATE or DELETE affects are those its WHERE clause matches.
\<close>

fun run_select :: "select_stmt \<Rightarrow> pool \<Rightarrow> row list" where
  "run_select SelectAllOrderByIdDesc p = rev (sort_key row_id (table p))"
| "run_select (SelectWhereId i) p = filter (matches p i) (table p)"

fun run_write :: "write_stmt \<Rightarrow> pool \<Rightarrow> header \<times> pool" where
  "run_write (InsertProduct n pr d c im) p =
     (\<lparr>insertId = auto_inc p, affectedRows = 1\<rparr>,
      p\<lparr>table := table p @ [new_row (auto_inc p) n pr d c im],
        auto_inc := Suc (auto_inc p)\<rparr>)"
| "run_write (UpdateWhereId n pr d c im i) p =
     (\<lparr>insertId = 0, affectedRows = length (filter (matches p i) (table p))\<rparr>,
      p\<lparr>table := map (\<lambda>r. if matches p i r then set_columns n pr d c im r else r) (table p)\<rparr>)"
| "run_write (DeleteWhereId i) p =
     (\<lparr>insertId = 0, affectedRows = length (filter (matches p i) (table p))\<rparr>,
      p\<lparr>table := filter (\<lambda>r. \<not> matches p i r) (table p)\<rparr>)"

text \<open>Whether the next data-access call faults; the schedule moves on.\<close>

definition next_call :: "pool \<Rightarrow> bool \<times> pool" where
  "next_call p =
     (case upcoming p of
        [] \<Rightarrow> (False, p)
      | f # rest \<Rightarrow>
          (f, p\<lparr>upcoming := rest,
                fault_count := (if f then Suc (fault_count p) else fault_count p)\<rparr>))"

text \<open>
  \<^verbatim>\<open>await pool.query(...)\<close>: \<open>None\<close> is the rejected promise, which the handler's
  \<^verbatim>\<open>catch\<close> receives; a statement that faults leaves the table as it was.
\<close>

definition query_select :: "select_stmt \<Rightarrow> pool \<Rightarrow> row list option \<times> pool" where
  "query_select q p =
     (let (f, p') = next_call p
      in if f then (None, p') else (Some (run_select q p'), p'))"

definition query_write :: "write_stmt \<Rightarrow> pool \<Rightarrow> header option \<times> pool" where
  "query_write q p =
     (let (f, p') = next_call p
      in if f then (None, p')
         else (let (h, p'') = run_write q p' in (Some h, p'')))"

text \<open>
  The table of a database that assigns identifiers itself: they are distinct
  and below the next one to assign.
\<close>

definition table_ok :: "pool \<Rightarrow> bool" where
  "table_ok p = (distinct (map row_id (table p)) \<and> list_all (\<lambda>r. row_id r < auto_inc p) (table p))"

subsection \<open>The handlers\<close>

text \<open>What \<^verbatim>\<open>res.json\<close> sends: a message object, a row, the rows, or \<^verbatim>\<open>undefined\<close>.\<close>

datatype reply = Message string | RowReply row | RowsReply "row list" | Undefined

record response =
  status :: nat
  reply :: reply

text \<open>\<^verbatim>\<open>products[0]\<close>, which is \<^verbatim>\<open>undefined\<close> on an empty array.\<close>

definition first_row :: "row list \<Rightarrow> reply" where
  "first_row products = (case products of [] \<Rightarrow> Undefined | r # rs \<Rightarrow> RowReply r)"

text \<open>\<^verbatim>\<open>router.get("/")\<close>.\<close>

definition get_products :: "pool \<Rightarrow> response \<times> pool" where
  "get_products p =
     (case query_select SelectAllOrderByIdDesc p of
        (None, p1) \<Rightarrow> (\<lparr>status = 500, reply = Message ''Failed to fetch products''\<rparr>, p1)
      | (Some rows, p1) \<Rightarrow> (\<lparr>status = 200, reply = RowsReply rows\<rparr>, p1))"

text \<open>\<^verbatim>\<open>router.get("/:id")\<close>.\<close>

definition get_product :: "jsstring \<Rightarrow> pool \<Rightarrow> response \<times> pool" where
  "get_product ident p =
     (case query_select (SelectWhereId (IdStr ident)) p of
        (None, p1) \<Rightarrow> (\<lparr>status = 500, reply = Message ''Failed to fetch product''\<rparr>, p1)
      | (Some products, p1) \<Rightarrow>
          if length products = 0
          then (\<lparr>status = 404, reply = Message ''Product not found''\<rparr>, p1)
          else (\<lparr>status = 200, reply = first_row products\<rparr>, p1))"

text \<open>\<^verbatim>\<open>router.post("/")\<close>.\<close>

definition post_product :: "body \<Rightarrow> pool \<Rightarrow> response \<times> pool" where
  "post_product b p =
     (if \<not> truthy (body_name b) \<or> \<not> truthy (body_price b) \<or>
         \<not> truthy (body_description b) \<or> \<not> truthy (body_category b)
      then (\<lparr>status = 400, reply = Message ''Missing required fields''\<rparr>, p)
      else
        (case query_write (InsertProduct (body_name b) (body_price b) (body_description b)
                (body_category b) (or_null (body_image b))) p of
           (None, p1) \<Rightarrow> (\<lparr>status = 500, reply = Message ''Failed to create product''\<rparr>, p1)
         | (Some insertResult, p1) \<Rightarrow>
             (case query_select (SelectWhereId (IdNum (insertId insertResult))) p1 of
                (None, p2) \<Rightarrow>
                  (\<lparr>status = 500, reply = Message ''Failed to create product''\<rparr>, p2)
              | (Some products, p2) \<Rightarrow>
                  (\<lparr>status = 201, reply = first_row products\<rparr>, p2))))"

text \<open>\<^verbatim>\<open>router.put("/:id")\<close>.\<close>

definition put_product :: "jsstring \<Rightarrow> body \<Rightarrow> pool \<Rightarrow> response \<times> pool" where
  "put_product ident b p =
     (case query_write (UpdateWhereId (body_name b) (body_price b) (body_description b)
             (body_category b) (or_null (body_image b)) (IdStr ident)) p of
        (None, p1) \<Rightarrow> (\<lparr>status = 500, reply = Message ''Failed to update product''\<rparr>, p1)
      | (Some updateResult, p1) \<Rightarrow>
          if affectedRows updateResult = 0
          then (\<lparr>status = 404, reply = Message ''Product not found''\<rparr>, p1)
          else
            (case query_select (SelectWhereId (IdStr ident)) p1 of
               (None, p2) \<Rightarrow>
                 (\<lparr>status = 500, reply = Message ''Failed to update product''\<rparr>, p2)
             | (Some products, p2) \<Rightarrow>
                 (\<lparr>status = 200, reply = first_row products\<rparr>, p2)))"

text \<open>\<^verbatim>\<open>router.delete("/:id")\<close>.\<close>

definition delete_product :: "jsstring \<Rightarrow> pool \<Rightarrow> response \<times> pool" where
  "delete_product ident p =
     (case query_write (DeleteWhereId (IdStr ident)) p of
        (None, p1) \<Rightarrow> (\<lparr>status = 500, reply = Message ''Failed to delete product''\<rparr>, p1)
      | (Some deleteResult, p1) \<Rightarrow>
          if affectedRows deleteResult = 0
          then (\<lparr>status = 404, reply = Message ''Product not found''\<rparr>, p1)
          else (\<lparr>status = 200, reply = Message ''Product deleted''\<rparr>, p1))"

text \<open>The columns a create or an update writes from a body.\<close>

definition body_row :: "nat \<Rightarrow> body \<Rightarrow> row" where
  "body_row i b = new_row i (body_name b) (body_price b) (body_description b)
     (body_category b) (or_null (body_image b))"

definition overwrite :: "body \<Rightarrow> row \<Rightarrow> row" where
  "overwrite b r = set_columns (body_name b) (body_price b) (body_description b)
     (body_category b) (or_null (body_image b)) r"

text \<open>The table after an update of the rows that match the route parameter.\<close>

definition updated :: "pool \<Rightarrow> jsstring \<Rightarrow> body \<Rightarrow> row list" where
  "updated p ident b =
     map (\<lambda>r. if matches p (IdStr ident) r then overwrite b r else r) (table p)"

text \<open>A required field is present when the body has the property at all.\<close>

definition required_present :: "body \<Rightarrow> bool" where
  "required_present b =
     (body_name b \<noteq> None \<and> body_price b \<noteq> None \<and> body_description b \<noteq> None \<and>
      body_category b \<noteq> None)"

definition required_truthy :: "body \<Rightarrow> bool" where
  "required_truthy b =
     (truthy (body_name b) \<and> truthy (body_price b) \<and> truthy (body_description b) \<and>
      truthy (body_category b))"

text \<open>No data-access call faulted while the handler ran.\<close>

definition no_fault :: "pool \<Rightarrow> 'a \<times> pool \<Rightarrow> bool" where
  "no_fault p result = (fault_count (snd result) = fault_count p)"

definition is_message :: "reply \<Rightarrow> bool" where
  "is_message r = (case r of Message m \<Rightarrow> True | _ \<Rightarrow> False)"

text \<open>A data-access fault is answered by status 500 and a message.\<close>

definition fault_reported :: "pool \<Rightarrow> response \<times> pool \<Rightarrow> bool" where
  "fault_reported p result =
     (fault_count (snd result) \<noteq> fault_count p \<longrightarrow>
        status (fst result) = 500 \<and> is_message (reply (fst result)))"

section \<open>Example inputs\<close>

text \<open>A database that compares a textual parameter with an identifier by its decimal digits.\<close>

definition decimal_id :: "jsstring \<Rightarrow> nat \<Rightarrow> bool" where
  "decimal_id s n = (s = string_of_nat n)"

definition empty_pool :: pool where
  "empty_pool = \<lparr>table = [], auto_inc = 1, id_eq = decimal_id, upcoming = [], fault_count = 0\<rparr>"

definition shirt_body :: body where
  "shirt_body = \<lparr>body_name = Some (JStr (js ''Shirt'')), body_price = Some (JNum (Fin 10)),
     body_description = Some (JStr (js ''d'')), body_category = Some (JStr (js ''men'')),
     body_image = None\<rparr>"

text \<open>Bodies with every required field present: a price of zero, a negative price.\<close>

definition zero_price_body :: body where
  "zero_price_body = shirt_body\<lparr>body_price := Some (JNum (Fin 0))\<rparr>"

definition negative_price_body :: body where
  "negative_price_body = shirt_body\<lparr>body_price := Some (JNum (Fin (- 5)))\<rparr>"

text \<open>A body with nothing but a price.\<close>

definition price_only_body :: body where
  "price_only_body = \<lparr>body_name = None, body_price = Some (JNum (Fin 7)),
     body_description = None, body_category = None, body_image = None\<rparr>"

text \<open>A table of two products.\<close>

definition two_rows_pool :: pool where
  "two_rows_pool = \<lparr>table = [body_row 1 shirt_body, body_row 2 negative_price_body],
     auto_inc = 3, id_eq = decimal_id, upcoming = [], fault_count = 0\<rparr>"

text \<open>The same table when the next data-access call faults.\<close>

definition faulting_pool :: pool where
  "faulting_pool = two_rows_pool\<lparr>upcoming := [True]\<rparr>"

text \<open>The valid form of the specification's example.\<close>

definition example_form :: form where
  "example_form = \<lparr>title = js ''Shirt'', price = js ''10'', description = js ''d'',
     category = js ''men'', imageB64 = js ''data:image/png;base64,AAAA'',
     previewSrc = js ''data:image/png;base64,AAAA'', submitting = False,
     error = None, success = None\<rparr>"

text \<open>A created record whose response carried a rating.\<close>

definition rated_product :: product where
  "rated_product = \<lparr>product_id = Fin 21, product_title = js ''Shirt'',
     product_category = js ''men'', product_price = Fin 10, product_description = js ''d'',
     product_image = js ''data:image/png;base64,AAAA'',
     product_rating = Some \<lparr>rate = Fin 4, count = Fin 120\<rparr>\<rparr>"

text \<open>
  The example form filled in again after an earlier create succeeded: the
  confirmation of that create is still shown.
\<close>

definition refilled_form :: form where
  "refilled_form = example_form\<lparr>success := Some (js ''Product created successfully!'')\<rparr>"

text \<open>
  Whether a form differs from an earlier one in nothing but the error message
  and the submitting flag.
\<close>

definition only_error_and_submitting_updated :: "form \<Rightarrow> form \<Rightarrow> bool" where
  "only_error_and_submitting_updated s s' =
     (s' = s\<lparr>error := error s', submitting := submitting s'\<rparr>)"

text \<open>Filling in the form on a fresh page and submitting it.\<close>

definition example_events :: "product event list" where
  "example_events =
     [SetTitle (js ''Shirt''), SetPrice (js ''10''), SetDescription (js ''d''),
      SetCategory (js ''men''), ImageChange (Some \<lparr>file_type = js ''image/png''\<rparr>),
      FileRead (Fulfilled (js ''data:image/png;base64,AAAA'')), Submit]"

definition submitted_page :: "product list page" where
  "submitted_page = \<lparr>form_of = example_form\<lparr>submitting := True\<rparr>, parent_of = [],
     inflight = 1, reading = 0\<rparr>"

text \<open>
  The response to the example submission, and filling in the form again after
  it: the page then shows the refilled form over the list with the created
  record.
\<close>

definition created_product :: product where
  "created_product = rated_product\<lparr>product_rating := None\<rparr>"

definition created_response :: "product fetch_response settled" where
  "created_response = Fulfilled \<lparr>res_ok = True, res_status = 200,
     res_text = Rejected None, res_json = Fulfilled created_product\<rparr>"

definition refill_events :: "product event list" where
  "refill_events =
     [FetchSettled created_response,
      SetTitle (js ''Shirt''), SetPrice (js ''10''), SetDescription (js ''d''),
      SetCategory (js ''men''), ImageChange (Some \<lparr>file_type = js ''image/png''\<rparr>),
      FileRead (Fulfilled (js ''data:image/png;base64,AAAA''))]"

definition refilled_page :: "product list page" where
  "refilled_page = \<lparr>form_of = refilled_form, parent_of = onSuccess created_product [],
     inflight = 0, reading = 0\<rparr>"

text \<open>A response of the remote service that is not a success.\<close>

definition server_error_response :: "product fetch_response settled" where
  "server_error_response = Fulfilled \<lparr>res_ok = False, res_status = 500,
     res_text = Fulfilled (js ''oops''), res_json = Rejected None\<rparr>"

section \<open>Properties\<close>

lemma trim_Nil_iff_blank: "trim s = [] \<longleftrightarrow> blank s"
proof
  assume "trim s = []"
  then have allws: "\<forall>c \<in> set (dropWhile isWhiteSpace s). isWhiteSpace c"
    by (simp add: trim_def)
  have "dropWhile isWhiteSpace s = []"
  proof (rule ccontr)
    assume ne: "dropWhile isWhiteSpace s \<noteq> []"
    then have "\<not> isWhiteSpace (hd (dropWhile isWhiteSpace s))"
      by (rule hd_dropWhile)
    moreover have "hd (dropWhile isWhiteSpace s) \<in> set (dropWhile isWhiteSpace s)"
      using ne by simp
    ultimately show False
      using allws by blast
  qed
  then show "blank s"
    by (simp add: blank_def list_all_iff)
next
  assume "blank s"
  then have "\<forall>c \<in> set s. isWhiteSpace c"
    by (simp add: blank_def list_all_iff)
  then show "trim s = []"
    by (auto simp: trim_def dest: set_dropWhileD)
qed

lemma example_form_valid: "allValid example_form"
  by (simp add: example_form_def allValid_def Number_def js_def trim_def isWhiteSpace_def
      non_decimal_def unsigned_decimal_def mantissa_def digits_def digit_val_def
      is_exp_indicator_def round_double_def)

subsection \<open>The form's validity predicate\<close>

text \<open>
  C3. The submission-validity predicate of the form is false exactly when the
  title, the description or the category is empty or white space only, or the
  price is not numerically greater than 0, or no image payload is present, or
  a submission is in flight; otherwise it is true.
\<close>

theorem allValid_iff_not_spec_invalid:
  "allValid s \<longleftrightarrow> \<not> spec_invalid s"
  by (auto simp: allValid_def spec_invalid_def price_positive_def image_present_def
      trim_Nil_iff_blank [symmetric])

theorem allValid_iff_not_spec_invalid_witness:
  "allValid example_form \<and> \<not> spec_invalid example_form \<and>
   \<not> allValid (example_form\<lparr>title := js ''  ''\<rparr>) \<and>
   spec_invalid (example_form\<lparr>title := js ''  ''\<rparr>)"
proof -
  have "\<not> allValid (example_form\<lparr>title := js ''  ''\<rparr>)"
    by (simp add: allValid_def js_def trim_def isWhiteSpace_def)
  with allValid_iff_not_spec_invalid [of example_form]
    allValid_iff_not_spec_invalid [of "example_form\<lparr>title := js ''  ''\<rparr>"]
    example_form_valid
  show ?thesis by simp
qed

subsection \<open>The created record in the viewer\<close>

text \<open>
  C4, as stated, fails: the stored record's rating is not the rating the
  created record carried. A created record with rating 4 of 120 raters is
  stored with the zero rating.
\<close>

theorem onSuccess_rating_not_preserved:
  "product_rating (hd (onSuccess rated_product [])) \<noteq> spec_stored_rating rated_product"
  by (simp add: onSuccess_def rated_product_def spec_stored_rating_def zero_rating_def)

text \<open>
  C4, amended. For every created record and every prior list, the callback
  puts the record at the head of the list, every field but the rating as it
  came, and the rating always the zero rating, whether or not the created
  record carried one.
\<close>

theorem onSuccess_prepends_with_zero_rating:
  "\<exists>stored. onSuccess created prev = stored # prev \<and>
     product_id stored = product_id created \<and>
     product_title stored = product_title created \<and>
     product_category stored = product_category created \<and>
     product_price stored = product_price created \<and>
     product_description stored = product_description created \<and>
     product_image stored = product_image created \<and>
     product_rating stored = Some zero_rating"
  by (simp add: onSuccess_def)

subsection \<open>One submission at a time\<close>

lemma inflight_tracks_submitting:
  "reachable cb st \<Longrightarrow> inflight st = (if submitting (form_of st) then 1 else 0)"
proof (induction rule: reachable.induct)
  case (reachable_init p)
  then show ?case by (simp add: initial_page_def initial_form_def)
next
  case (reachable_step st e st')
  then show ?case
  proof (cases e)
    case (ImageChange f)
    with reachable_step show ?thesis
      by (auto simp: handleImageChange_start_def split: option.splits if_splits prod.splits)
  next
    case (FileRead r)
    with reachable_step show ?thesis
      by (auto simp: handleImageChange_done_def split: settled.splits if_splits)
  next
    case Submit
    with reachable_step show ?thesis
      by (auto simp: handleSubmit_start_def submit_disabled_def allValid_def split: if_splits)
  next
    case (FetchSettled out)
    with reachable_step show ?thesis
      by (auto simp: handleSubmit_settle_def split: if_splits prod.splits)
  next
    case Reset
    with reachable_step show ?thesis by (auto simp: resetForm_def)
  qed auto
qed

lemma only_settle_clears:
  "fire cb e st = Some st' \<Longrightarrow> submitting (form_of st) \<Longrightarrow> \<not> submitting (form_of st')
     \<Longrightarrow> \<exists>outcome. e = FetchSettled outcome"
  by (cases e) (auto simp: handleImageChange_start_def handleImageChange_done_def
       handleSubmit_start_def resetForm_def
       split: option.splits if_splits prod.splits settled.splits)

lemma run_reachable: "reachable cb st \<Longrightarrow> run cb es st = Some st' \<Longrightarrow> reachable cb st'"
proof (induction es arbitrary: st)
  case Nil
  then show ?case by simp
next
  case (Cons e es)
  then show ?case
    by (auto split: option.splits intro: reachable_step)
qed

lemma example_run: "run page_callback example_events (initial_page []) = Some submitted_page"
  using example_form_valid
  by (simp add: example_events_def initial_page_def initial_form_def submitted_page_def
       handleImageChange_start_def handleImageChange_done_def startsWith_def js_def
       submit_disabled_def handleSubmit_start_def example_form_def)

lemma submitted_page_reachable: "reachable page_callback submitted_page"
  using run_reachable [OF reachable_init example_run] .

lemma refill_run: "run page_callback refill_events submitted_page = Some refilled_page"
  by (simp add: refill_events_def submitted_page_def refilled_page_def refilled_form_def
      created_response_def page_callback_def handleSubmit_settle_def submit_outcome_def
      resetForm_def handleImageChange_start_def handleImageChange_done_def startsWith_def
      js_def example_form_def)

lemma refilled_page_reachable: "reachable page_callback refilled_page"
  using run_reachable [OF submitted_page_reachable refill_run] .

text \<open>
  C8. In every reachable state of the form at most one create request is
  outstanding, and the submitting flag is set exactly while one is. While
  the flag is set the validity predicate is false, the submit control is
  disabled and no submission can start; and an event that clears the flag is
  the settling of the request in flight.
\<close>

theorem no_second_submission_while_outstanding:
  assumes "reachable cb st"
  shows "inflight st \<le> 1 \<and>
         (submitting (form_of st) \<longleftrightarrow> inflight st = 1) \<and>
         (submitting (form_of st) \<longrightarrow>
            \<not> allValid (form_of st) \<and> submit_disabled (form_of st) \<and> fire cb Submit st = None) \<and>
         (\<forall>e st'. fire cb e st = Some st' \<and> submitting (form_of st) \<and> \<not> submitting (form_of st')
            \<longrightarrow> (\<exists>outcome. e = FetchSettled outcome))"
proof -
  have "inflight st = (if submitting (form_of st) then 1 else 0)"
    using assms by (rule inflight_tracks_submitting)
  moreover have "submitting (form_of st) \<Longrightarrow> \<not> allValid (form_of st)"
    by (simp add: allValid_def)
  ultimately show ?thesis
    using only_settle_clears [of cb _ st] by (auto simp: submit_disabled_def)
qed

theorem no_second_submission_while_outstanding_witness:
  "reachable page_callback submitted_page \<and> submitting (form_of submitted_page) \<and>
   inflight submitted_page = 1 \<and> submit_disabled (form_of submitted_page) \<and>
   fire page_callback Submit submitted_page = None"
  using no_second_submission_while_outstanding [OF submitted_page_reachable]
    submitted_page_reachable
  by (simp add: submitted_page_def)

subsection \<open>Failed submissions\<close>

text \<open>
  C10, as stated, fails: a failed submission updates more than the error
  message and the submitting flag. On the form filled in again after an
  earlier success, a state the page reaches, a rejected request also clears
  the success message.
\<close>

theorem failed_submission_counterexample:
  "reachable page_callback refilled_page \<and>
   failed (Rejected (Some (js ''Failed to fetch'')) :: product fetch_response settled) \<and>
   \<not> only_error_and_submitting_updated (form_of refilled_page)
       (fst (submit_attempt page_callback (Rejected (Some (js ''Failed to fetch'')))
          (form_of refilled_page) (parent_of refilled_page)))"
  using refilled_page_reachable
  by (simp add: failed_def only_error_and_submitting_updated_def submit_attempt_def
      handleSubmit_settle_def handleSubmit_start_def submit_outcome_def catch_submit_def
      refilled_page_def refilled_form_def example_form_def)

text \<open>
  C10, amended. After a submission that fails (the request is rejected or the
  status is not a success) the form is the form before the attempt with the
  error message set, the success message cleared and the submitting flag
  off: the fields title, price, description, category, image payload and
  preview are unchanged, and so is the parent's state. An attempt changes the
  fields only on a successful response, and then it empties them.
\<close>

theorem failed_submission_keeps_fields:
  "(failed outcome \<longrightarrow>
      submit_attempt cb outcome s p =
        (s\<lparr>submitting := False, error := Some (failure_message outcome), success := None\<rparr>, p)) \<and>
   (field_state (fst (submit_attempt cb outcome s p)) \<noteq> field_state s \<longrightarrow>
      succeeded outcome \<and>
      field_state (fst (submit_attempt cb outcome s p)) = ([], [], [], [], [], []))"
  by (auto simp: failed_def succeeded_def failure_message_def submit_attempt_def
      handleSubmit_settle_def handleSubmit_start_def submit_outcome_def catch_submit_def
      resetForm_def field_state_def Let_def
      split: settled.splits option.splits called.splits)

theorem failed_submission_keeps_fields_witness:
  "failed server_error_response \<and>
   field_state (fst (submit_attempt page_callback server_error_response refilled_form []))
     = field_state refilled_form \<and>
   error (fst (submit_attempt page_callback server_error_response refilled_form []))
     = Some (js ''HTTP 500 '' @ [0x2014] @ js '' oops'')"
proof -
  have f: "failed server_error_response"
    by (simp add: failed_def server_error_response_def)
  have m: "failure_message server_error_response = js ''HTTP 500 '' @ [0x2014] @ js '' oops''"
    by (simp add: failure_message_def server_error_response_def http_error_message_def
        string_of_nat.simps js_def)
  from failed_submission_keeps_fields [of server_error_response page_callback refilled_form "[]"] f
  have "submit_attempt page_callback server_error_response refilled_form [] =
        (refilled_form\<lparr>submitting := False,
           error := Some (failure_message server_error_response), success := None\<rparr>, [])"
    by blast
  then show ?thesis
    using f m by (simp add: field_state_def)
qed

subsection \<open>The data-access layer\<close>

lemmas query_defs = query_select_def query_write_def next_call_def

lemmas example_defs = two_rows_pool_def faulting_pool_def empty_pool_def shirt_body_def
  negative_price_body_def zero_price_body_def price_only_body_def

lemma decimal_id_digit:
  "decimal_id (js ''1'') (Suc 0)" "\<not> decimal_id (js ''1'') 2"
  "\<not> decimal_id (js ''2'') (Suc 0)" "decimal_id (js ''2'') 2"
  "\<not> decimal_id (js ''9'') (Suc 0)" "\<not> decimal_id (js ''9'') 2"
  by (simp_all add: decimal_id_def js_def string_of_nat.simps)

lemma matches_upd [simp]:
  "matches (p\<lparr>upcoming := u\<rparr>) = matches p"
  "matches (p\<lparr>fault_count := c\<rparr>) = matches p"
  "matches (p\<lparr>table := t\<rparr>) = matches p"
  "matches (p\<lparr>auto_inc := a\<rparr>) = matches p"
proof -
  have m: "matches q = matches p" if "id_eq q = id_eq p" for q
  proof (intro ext)
    fix i r
    show "matches q i r = matches p i r"
      using that by (cases i) simp_all
  qed
  show "matches (p\<lparr>upcoming := u\<rparr>) = matches p" by (rule m) simp
  show "matches (p\<lparr>fault_count := c\<rparr>) = matches p" by (rule m) simp
  show "matches (p\<lparr>table := t\<rparr>) = matches p" by (rule m) simp
  show "matches (p\<lparr>auto_inc := a\<rparr>) = matches p" by (rule m) simp
qed

lemma matches_row_id: "row_id r = row_id r' \<Longrightarrow> matches p i r = matches p i r'"
  by (cases i) simp_all

lemma overwrite_fields [simp]:
  "row_id (overwrite b r) = row_id r"
  "row_name (overwrite b r) = sql_value (body_name b)"
  "row_price (overwrite b r) = sql_value (body_price b)"
  "row_description (overwrite b r) = sql_value (body_description b)"
  "row_category (overwrite b r) = sql_value (body_category b)"
  "row_image (overwrite b r) = or_null (body_image b)"
  by (simp_all add: overwrite_def set_columns_def)

lemma body_row_fields [simp]:
  "row_id (body_row i b) = i"
  "row_name (body_row i b) = sql_value (body_name b)"
  "row_price (body_row i b) = sql_value (body_price b)"
  "row_description (body_row i b) = sql_value (body_description b)"
  "row_category (body_row i b) = sql_value (body_category b)"
  "row_image (body_row i b) = or_null (body_image b)"
  by (simp_all add: body_row_def new_row_def)

lemma get_products_fault: "fault_reported p (get_products p)"
  by (simp add: fault_reported_def get_products_def query_defs is_message_def
      split: list.splits)

lemma get_product_fault: "fault_reported p (get_product ident p)"
  by (simp add: fault_reported_def get_product_def query_defs is_message_def
      split: list.splits)

lemma post_product_fault: "fault_reported p (post_product b p)"
  by (simp add: fault_reported_def post_product_def query_defs is_message_def
      split: list.splits)

lemma put_product_fault: "fault_reported p (put_product ident b p)"
  by (simp add: fault_reported_def put_product_def query_defs is_message_def
      split: list.splits)

lemma delete_product_fault: "fault_reported p (delete_product ident p)"
  by (simp add: fault_reported_def delete_product_def query_defs is_message_def
      split: list.splits)


text \<open>
  C7. In each of the five handlers (list, get, create, update, delete), when
  a data-access call faults while the handler runs, the response has status
  500 and a body with a message.
\<close>

theorem faults_answered_500:
  "fault_reported p (get_products p) \<and> fault_reported p (get_product ident p) \<and>
   fault_reported p (post_product b p) \<and> fault_reported p (put_product ident b p) \<and>
   fault_reported p (delete_product ident p)"
  by (simp only: get_products_fault get_product_fault post_product_fault put_product_fault
      delete_product_fault simp_thms)

theorem faults_answered_500_witness:
  "fault_count (snd (get_products faulting_pool)) \<noteq> fault_count faulting_pool \<and>
   fault_count (snd (get_product (js ''1'') faulting_pool)) \<noteq> fault_count faulting_pool \<and>
   fault_count (snd (post_product shirt_body faulting_pool)) \<noteq> fault_count faulting_pool \<and>
   fault_count (snd (put_product (js ''1'') shirt_body faulting_pool)) \<noteq> fault_count faulting_pool \<and>
   fault_count (snd (delete_product (js ''1'') faulting_pool)) \<noteq> fault_count faulting_pool \<and>
   status (fst (get_products faulting_pool)) = 500 \<and>
   status (fst (get_product (js ''1'') faulting_pool)) = 500 \<and>
   status (fst (post_product shirt_body faulting_pool)) = 500 \<and>
   status (fst (put_product (js ''1'') shirt_body faulting_pool)) = 500 \<and>
   status (fst (delete_product (js ''1'') faulting_pool)) = 500"
proof -
  have c: "fault_count (snd (get_products faulting_pool)) \<noteq> fault_count faulting_pool"
    "fault_count (snd (get_product (js ''1'') faulting_pool)) \<noteq> fault_count faulting_pool"
    "fault_count (snd (post_product shirt_body faulting_pool)) \<noteq> fault_count faulting_pool"
    "fault_count (snd (put_product (js ''1'') shirt_body faulting_pool)) \<noteq> fault_count faulting_pool"
    "fault_count (snd (delete_product (js ''1'') faulting_pool)) \<noteq> fault_count faulting_pool"
    by (simp_all add: example_defs get_products_def get_product_def post_product_def
        put_product_def delete_product_def query_defs js_def)
  with faults_answered_500 [of faulting_pool "js ''1''" shirt_body]
  show ?thesis
    by (simp add: fault_reported_def)
qed

lemma sorted_desc: "sorted_wrt (\<lambda>a b. row_id a \<ge> row_id b) (rev (sort_key row_id xs))"
proof -
  have "sorted (map row_id (sort_key row_id xs))" by (rule sorted_sort_key)
  then have "sorted_wrt (\<lambda>a b. row_id a \<le> row_id b) (sort_key row_id xs)"
    by (simp add: sorted_map)
  then show ?thesis by (simp add: sorted_wrt_rev)
qed


lemma get_products_ok:
  assumes "no_fault p (get_products p)"
  shows "fst (get_products p) = \<lparr>status = 200, reply = RowsReply (rev (sort_key row_id (table p)))\<rparr>"
    and "table (snd (get_products p)) = table p"
  using assms
  by (simp_all add: no_fault_def get_products_def query_defs split: list.splits if_splits)

text \<open>
  C5. The list operation, when its data-access call does not fault, answers
  200 with all the rows of the table, each once, ordered by identifier
  descending, and leaves the table as it is.
\<close>

theorem get_products_all_descending:
  "no_fault p (get_products p) \<longrightarrow>
     (\<exists>rows. fst (get_products p) = \<lparr>status = 200, reply = RowsReply rows\<rparr> \<and>
        mset rows = mset (table p) \<and>
        sorted_wrt (\<lambda>a b. row_id a \<ge> row_id b) rows) \<and>
     table (snd (get_products p)) = table p"
proof
  assume nf: "no_fault p (get_products p)"
  have "mset (rev (sort_key row_id (table p))) = mset (table p)"
    by simp
  with get_products_ok [OF nf] sorted_desc [of "table p"] show
    "(\<exists>rows. fst (get_products p) = \<lparr>status = 200, reply = RowsReply rows\<rparr> \<and>
        mset rows = mset (table p) \<and>
        sorted_wrt (\<lambda>a b. row_id a \<ge> row_id b) rows) \<and>
     table (snd (get_products p)) = table p"
    by blast
qed


theorem get_products_all_descending_witness:
  "no_fault two_rows_pool (get_products two_rows_pool) \<and>
   fst (get_products two_rows_pool) =
     \<lparr>status = 200, reply = RowsReply [body_row 2 negative_price_body, body_row 1 shirt_body]\<rparr> \<and>
   (\<exists>rows. fst (get_products two_rows_pool) = \<lparr>status = 200, reply = RowsReply rows\<rparr> \<and>
      mset rows = mset (table two_rows_pool) \<and>
      sorted_wrt (\<lambda>a b. row_id a \<ge> row_id b) rows)"
proof -
  have nf: "no_fault two_rows_pool (get_products two_rows_pool)"
    by (simp add: no_fault_def get_products_def query_defs two_rows_pool_def)
  have ev: "fst (get_products two_rows_pool) =
     \<lparr>status = 200, reply = RowsReply [body_row 2 negative_price_body, body_row 1 shirt_body]\<rparr>"
    by (simp add: get_products_def query_defs two_rows_pool_def)
  from get_products_all_descending [of two_rows_pool] nf ev show ?thesis
    by blast
qed


lemma get_products_rows:
  "reply (fst (get_products q)) = RowsReply rows \<Longrightarrow> rows = rev (sort_key row_id (table q))"
  by (simp add: get_products_def query_defs split: list.splits if_splits)

lemma delete_product_ok:
  assumes "no_fault p (delete_product ident p)"
  shows "fst (delete_product ident p) =
           (if filter (matches p (IdStr ident)) (table p) = []
            then \<lparr>status = 404, reply = Message ''Product not found''\<rparr>
            else \<lparr>status = 200, reply = Message ''Product deleted''\<rparr>)"
    and "table (snd (delete_product ident p)) = filter (\<lambda>r. \<not> matches p (IdStr ident) r) (table p)"
  using assms
  by (simp_all add: no_fault_def delete_product_def query_defs split: list.splits if_splits)

text \<open>
  C6. When its data-access call does not fault, the delete operation answers
  404 if no row matches the identifier and leaves the table as it is; if a
  row matches, it answers with the message of success, and a list call that
  follows returns the rows that did not match and none that did.
\<close>

theorem delete_product_removes:
  "no_fault p (delete_product ident p) \<Longrightarrow>
     (if list_ex (matches p (IdStr ident)) (table p)
      then fst (delete_product ident p) = \<lparr>status = 200, reply = Message ''Product deleted''\<rparr> \<and>
           (\<forall>rows. reply (fst (get_products (snd (delete_product ident p)))) = RowsReply rows
              \<longrightarrow> set rows = {r \<in> set (table p). \<not> matches p (IdStr ident) r})
      else fst (delete_product ident p) = \<lparr>status = 404, reply = Message ''Product not found''\<rparr> \<and>
           table (snd (delete_product ident p)) = table p)"
proof -
  assume nf: "no_fault p (delete_product ident p)"
  note ok = delete_product_ok [OF nf]
  show ?thesis
  proof (cases "list_ex (matches p (IdStr ident)) (table p)")
    case True
    then have ne: "filter (matches p (IdStr ident)) (table p) \<noteq> []"
      by (simp add: list_ex_iff filter_empty_conv)
    have "set rows = {r \<in> set (table p). \<not> matches p (IdStr ident) r}"
      if "reply (fst (get_products (snd (delete_product ident p)))) = RowsReply rows" for rows
      using get_products_rows [OF that] ok(2) by auto
    with True ne ok(1) show ?thesis by simp
  next
    case False
    then have e: "filter (matches p (IdStr ident)) (table p) = []"
      by (simp add: list_ex_iff filter_empty_conv)
    from False have "filter (\<lambda>r. \<not> matches p (IdStr ident) r) (table p) = table p"
      by (simp add: list_ex_iff filter_id_conv)
    with False e ok show ?thesis by simp
  qed
qed

theorem delete_product_removes_witness:
  "no_fault two_rows_pool (delete_product (js ''2'') two_rows_pool) \<and>
   list_ex (matches two_rows_pool (IdStr (js ''2''))) (table two_rows_pool) \<and>
   fst (delete_product (js ''2'') two_rows_pool) =
     \<lparr>status = 200, reply = Message ''Product deleted''\<rparr> \<and>
   reply (fst (get_products (snd (delete_product (js ''2'') two_rows_pool)))) =
     RowsReply [body_row 1 shirt_body] \<and>
   no_fault two_rows_pool (delete_product (js ''9'') two_rows_pool) \<and>
   \<not> list_ex (matches two_rows_pool (IdStr (js ''9''))) (table two_rows_pool) \<and>
   fst (delete_product (js ''9'') two_rows_pool) =
     \<lparr>status = 404, reply = Message ''Product not found''\<rparr>"
proof -
  have nf: "no_fault two_rows_pool (delete_product (js ''2'') two_rows_pool)"
    "no_fault two_rows_pool (delete_product (js ''9'') two_rows_pool)"
    by (simp_all add: no_fault_def delete_product_def query_defs two_rows_pool_def)
  have m: "list_ex (matches two_rows_pool (IdStr (js ''2''))) (table two_rows_pool)"
    "\<not> list_ex (matches two_rows_pool (IdStr (js ''9''))) (table two_rows_pool)"
    by (simp_all add: two_rows_pool_def decimal_id_digit)
  have l: "reply (fst (get_products (snd (delete_product (js ''2'') two_rows_pool)))) =
     RowsReply [body_row 1 shirt_body]"
    by (simp add: delete_product_def get_products_def query_defs two_rows_pool_def
        decimal_id_digit)
  from delete_product_removes [OF nf(1)] delete_product_removes [OF nf(2)] nf m l
  show ?thesis by simp
qed

lemma put_product_not_400: "status (fst (put_product ident b p)) \<noteq> 400"
  by (simp add: put_product_def query_defs split: list.splits if_splits prod.splits option.splits)


lemma put_product_ok:
  assumes "no_fault p (put_product ident b p)"
    and "filter (matches p (IdStr ident)) (table p) \<noteq> []"
  shows "table (snd (put_product ident b p)) = updated p ident b"
    and "fst (put_product ident b p) =
           \<lparr>status = 200, reply = first_row (filter (matches p (IdStr ident)) (updated p ident b))\<rparr>"
  using assms unfolding updated_def overwrite_def
  by (simp_all add: no_fault_def put_product_def query_defs
      del: matches.simps split: list.splits if_splits)

lemma filter_updated:
  "filter (matches p (IdStr ident)) (updated p ident b) =
     map (overwrite b) (filter (matches p (IdStr ident)) (table p))"
proof -
  have m: "matches p (IdStr ident) (overwrite b r) = matches p (IdStr ident) r" for r
    by (rule matches_row_id) simp
  have "filter (matches p (IdStr ident))
          (map (\<lambda>r. if matches p (IdStr ident) r then overwrite b r else r) xs) =
        map (overwrite b) (filter (matches p (IdStr ident)) xs)" for xs
    by (induction xs) (simp_all add: m del: matches.simps)
  then show ?thesis
    by (simp add: updated_def del: matches.simps)
qed

text \<open>
  C9. The update operation never answers 400, whatever the body. When no
  data-access call faults and a row matches the identifier, every matching
  row has its columns name, price, description, category and image
  overwritten from the body (an absent property, the image too, as null),
  the other rows stay, and the answer is 200 with the matching row as read
  back after the update.
\<close>

theorem put_product_overwrites:
  "status (fst (put_product ident b p)) \<noteq> 400 \<and>
   (no_fault p (put_product ident b p) \<and> list_ex (matches p (IdStr ident)) (table p) \<longrightarrow>
      (\<exists>r. fst (put_product ident b p) = \<lparr>status = 200, reply = RowReply r\<rparr> \<and>
           r \<in> set (table (snd (put_product ident b p))) \<and>
           matches p (IdStr ident) r \<and>
           row_name r = sql_value (body_name b) \<and>
           row_price r = sql_value (body_price b) \<and>
           row_description r = sql_value (body_description b) \<and>
           row_category r = sql_value (body_category b) \<and>
           row_image r = or_null (body_image b)) \<and>
      table (snd (put_product ident b p)) =
        map (\<lambda>r. if matches p (IdStr ident) r then overwrite b r else r) (table p))"
proof (intro conjI impI)
  show "status (fst (put_product ident b p)) \<noteq> 400"
    by (rule put_product_not_400)
next
  assume a: "no_fault p (put_product ident b p) \<and> list_ex (matches p (IdStr ident)) (table p)"
  then have ne: "filter (matches p (IdStr ident)) (table p) \<noteq> []"
    by (simp add: list_ex_iff filter_empty_conv del: matches.simps)
  then obtain r0 rs where f: "filter (matches p (IdStr ident)) (table p) = r0 # rs"
    by (cases "filter (matches p (IdStr ident)) (table p)") auto
  from a ne have ok: "table (snd (put_product ident b p)) = updated p ident b"
    "fst (put_product ident b p) =
       \<lparr>status = 200, reply = first_row (filter (matches p (IdStr ident)) (updated p ident b))\<rparr>"
    by (simp_all add: put_product_ok del: matches.simps)
  from ok(1) show "table (snd (put_product ident b p)) =
        map (\<lambda>r. if matches p (IdStr ident) r then overwrite b r else r) (table p)"
    by (simp add: updated_def del: matches.simps)
  let ?r = "overwrite b r0"
  have fu: "filter (matches p (IdStr ident)) (updated p ident b) = ?r # map (overwrite b) rs"
    by (simp add: filter_updated f)
  then have "?r \<in> set (filter (matches p (IdStr ident)) (updated p ident b))"
    by simp
  then have mem: "?r \<in> set (updated p ident b)" and mt: "matches p (IdStr ident) ?r"
    by (simp_all del: matches.simps)
  have "fst (put_product ident b p) = \<lparr>status = 200, reply = RowReply ?r\<rparr>"
    using ok(2) fu by (simp add: first_row_def)
  with mem mt ok(1)
  show "\<exists>r. fst (put_product ident b p) = \<lparr>status = 200, reply = RowReply r\<rparr> \<and>
           r \<in> set (table (snd (put_product ident b p))) \<and>
           matches p (IdStr ident) r \<and>
           row_name r = sql_value (body_name b) \<and>
           row_price r = sql_value (body_price b) \<and>
           row_description r = sql_value (body_description b) \<and>
           row_category r = sql_value (body_category b) \<and>
           row_image r = or_null (body_image b)"
    by (intro exI [of _ ?r]) (simp del: matches.simps)
qed


theorem put_product_overwrites_witness:
  "no_fault two_rows_pool (put_product (js ''1'') price_only_body two_rows_pool) \<and>
   list_ex (matches two_rows_pool (IdStr (js ''1''))) (table two_rows_pool) \<and>
   fst (put_product (js ''1'') price_only_body two_rows_pool) =
     \<lparr>status = 200, reply = RowReply \<lparr>row_id = 1, row_name = JNull, row_price = JNum (Fin 7),
        row_description = JNull, row_category = JNull, row_image = JNull\<rparr>\<rparr> \<and>
   table (snd (put_product (js ''1'') price_only_body two_rows_pool)) =
     [overwrite price_only_body (body_row 1 shirt_body), body_row 2 negative_price_body]"
proof -
  have nf: "no_fault two_rows_pool (put_product (js ''1'') price_only_body two_rows_pool)"
    by (simp add: no_fault_def put_product_def query_defs two_rows_pool_def)
  have m: "list_ex (matches two_rows_pool (IdStr (js ''1''))) (table two_rows_pool)"
    by (simp add: two_rows_pool_def decimal_id_digit)
  have ev: "fst (put_product (js ''1'') price_only_body two_rows_pool) =
     \<lparr>status = 200, reply = RowReply \<lparr>row_id = 1, row_name = JNull, row_price = JNum (Fin 7),
        row_description = JNull, row_category = JNull, row_image = JNull\<rparr>\<rparr>"
    by (simp add: put_product_def query_defs two_rows_pool_def decimal_id_digit first_row_def
        set_columns_def body_row_def new_row_def price_only_body_def)
  from put_product_overwrites [of "js ''1''" price_only_body two_rows_pool] nf m
  have "table (snd (put_product (js ''1'') price_only_body two_rows_pool)) =
        map (\<lambda>r. if matches two_rows_pool (IdStr (js ''1'')) r
                  then overwrite price_only_body r else r) (table two_rows_pool)"
    by blast
  then have "table (snd (put_product (js ''1'') price_only_body two_rows_pool)) =
     [overwrite price_only_body (body_row 1 shirt_body), body_row 2 negative_price_body]"
    by (simp add: two_rows_pool_def decimal_id_digit)
  with nf m ev show ?thesis by simp
qed

subsection \<open>Creating a product\<close>

lemma post_product_400:
  "\<not> required_truthy b \<Longrightarrow>
     post_product b p = (\<lparr>status = 400, reply = Message ''Missing required fields''\<rparr>, p)"
  by (auto simp: post_product_def required_truthy_def)

lemma filter_fresh_id:
  assumes "list_all (\<lambda>r. row_id r < n) xs"
  shows "filter (\<lambda>r. row_id r = n) xs = []"
  using assms by (induction xs) auto

lemma post_product_ok:
  assumes "required_truthy b" and "table_ok p" and "no_fault p (post_product b p)"
  shows "fst (post_product b p) = \<lparr>status = 201, reply = RowReply (body_row (auto_inc p) b)\<rparr>"
    and "table (snd (post_product b p)) = table p @ [body_row (auto_inc p) b]"
proof -
  have mn: "matches q (IdNum n) = (\<lambda>r. row_id r = n)" for q n
    by (intro ext) simp
  from assms(2) have fr: "filter (matches p (IdNum (auto_inc p))) (table p) = []"
    by (simp add: table_ok_def filter_fresh_id mn)
  have [simp]: "row_id (new_row i n pr d c im) = i" for i n pr d c im
    by (simp add: new_row_def)
  have t: "\<not> (\<not> truthy (body_name b) \<or> \<not> truthy (body_price b) \<or>
         \<not> truthy (body_description b) \<or> \<not> truthy (body_category b))"
    using assms(1) by (simp add: required_truthy_def)
  show "fst (post_product b p) = \<lparr>status = 201, reply = RowReply (body_row (auto_inc p) b)\<rparr>"
    using assms(3) fr unfolding post_product_def body_row_def if_not_P [OF t]
    by (simp add: no_fault_def query_defs first_row_def split: list.splits if_splits)
  show "table (snd (post_product b p)) = table p @ [body_row (auto_inc p) b]"
    using assms(3) fr unfolding post_product_def body_row_def if_not_P [OF t]
    by (simp add: no_fault_def query_defs first_row_def split: list.splits if_splits)
qed

lemma truthy_Some: "truthy x \<Longrightarrow> x = Some (sql_value x)"
  by (cases x) simp_all

text \<open>
  C1, as stated, fails: a body with every required field present, its price
  the number 0, is answered 400 and not 201.
\<close>

theorem post_product_zero_price_rejected:
  "required_present zero_price_body \<and>
   fst (post_product zero_price_body empty_pool) =
     \<lparr>status = 400, reply = Message ''Missing required fields''\<rparr>"
  by (simp add: required_present_def zero_price_body_def shirt_body_def post_product_def)

text \<open>
  C1, amended. If a required field (name, price, description, category) is
  absent or falsy (null, false, 0, the empty string), the create operation
  answers 400 with a message and touches nothing. If all four are truthy and
  no data-access call faults, it answers 201 with the new row: its name,
  price, description and category are those of the body, its image is the
  body's or null, and its identifier is the one the table assigns, which no
  earlier row has.
\<close>

theorem post_product_validates_then_creates:
  "(\<not> required_present b \<or> \<not> required_truthy b \<longrightarrow>
      post_product b p = (\<lparr>status = 400, reply = Message ''Missing required fields''\<rparr>, p)) \<and>
   (required_truthy b \<and> table_ok p \<and> no_fault p (post_product b p) \<longrightarrow>
      (\<exists>r. fst (post_product b p) = \<lparr>status = 201, reply = RowReply r\<rparr> \<and>
           body_name b = Some (row_name r) \<and> body_price b = Some (row_price r) \<and>
           body_description b = Some (row_description r) \<and>
           body_category b = Some (row_category r) \<and>
           row_image r = or_null (body_image b) \<and>
           row_id r = auto_inc p \<and> row_id r \<notin> row_id ` set (table p) \<and>
           table (snd (post_product b p)) = table p @ [r]))"
proof (intro conjI impI)
  assume "\<not> required_present b \<or> \<not> required_truthy b"
  then have "\<not> required_truthy b"
    by (auto simp: required_present_def required_truthy_def)
  then show "post_product b p = (\<lparr>status = 400, reply = Message ''Missing required fields''\<rparr>, p)"
    by (rule post_product_400)
next
  assume a: "required_truthy b \<and> table_ok p \<and> no_fault p (post_product b p)"
  let ?r = "body_row (auto_inc p) b"
  from a have ok: "fst (post_product b p) = \<lparr>status = 201, reply = RowReply ?r\<rparr>"
    "table (snd (post_product b p)) = table p @ [?r]"
    by (simp_all add: post_product_ok)
  from a have fresh: "auto_inc p \<notin> row_id ` set (table p)"
    by (auto simp: table_ok_def list_all_iff)
  from a have "body_name b = Some (row_name ?r)" "body_price b = Some (row_price ?r)"
    "body_description b = Some (row_description ?r)" "body_category b = Some (row_category ?r)"
    by (simp_all add: required_truthy_def truthy_Some [symmetric])
  with ok fresh
  show "\<exists>r. fst (post_product b p) = \<lparr>status = 201, reply = RowReply r\<rparr> \<and>
           body_name b = Some (row_name r) \<and> body_price b = Some (row_price r) \<and>
           body_description b = Some (row_description r) \<and>
           body_category b = Some (row_category r) \<and>
           row_image r = or_null (body_image b) \<and>
           row_id r = auto_inc p \<and> row_id r \<notin> row_id ` set (table p) \<and>
           table (snd (post_product b p)) = table p @ [r]"
    by (intro exI [of _ ?r]) simp
qed

theorem post_product_validates_then_creates_witness:
  "\<not> required_present price_only_body \<and>
   post_product price_only_body two_rows_pool =
     (\<lparr>status = 400, reply = Message ''Missing required fields''\<rparr>, two_rows_pool) \<and>
   required_truthy shirt_body \<and> table_ok two_rows_pool \<and>
   no_fault two_rows_pool (post_product shirt_body two_rows_pool) \<and>
   fst (post_product shirt_body two_rows_pool) =
     \<lparr>status = 201, reply = RowReply (body_row 3 shirt_body)\<rparr>"
proof -
  have a: "\<not> required_present price_only_body"
    by (simp add: required_present_def price_only_body_def)
  have b: "required_truthy shirt_body"
    by (simp add: required_truthy_def shirt_body_def js_def)
  have c: "table_ok two_rows_pool"
    by (simp add: table_ok_def two_rows_pool_def)
  have d: "no_fault two_rows_pool (post_product shirt_body two_rows_pool)"
    by (simp add: no_fault_def post_product_def query_defs two_rows_pool_def)
  have e: "fst (post_product shirt_body two_rows_pool) =
     \<lparr>status = 201, reply = RowReply (body_row 3 shirt_body)\<rparr>"
    using b by (simp add: required_truthy_def post_product_def query_defs two_rows_pool_def
        first_row_def body_row_def new_row_def)
  from post_product_validates_then_creates [of price_only_body two_rows_pool]
    post_product_validates_then_creates [of shirt_body two_rows_pool] a b c d e
  show ?thesis by simp
qed

lemma post_product_status_400_iff: "status (fst (post_product b p)) = 400 \<longleftrightarrow> \<not> required_truthy b"
proof
  assume "status (fst (post_product b p)) = 400"
  then show "\<not> required_truthy b"
    unfolding post_product_def required_truthy_def
    by (auto simp: query_defs split: list.splits if_splits)
next
  assume "\<not> required_truthy b"
  then show "status (fst (post_product b p)) = 400"
    by (simp add: post_product_400)
qed

text \<open>
  C2, as stated, fails: a create request that supplies the price 0 along with
  the other required fields is rejected with the validation error.
\<close>

theorem post_product_supplied_price_rejected:
  "body_price zero_price_body = Some (JNum (Fin 0)) \<and>
   truthy (body_name zero_price_body) \<and> truthy (body_description zero_price_body) \<and>
   truthy (body_category zero_price_body) \<and>
   status (fst (post_product zero_price_body two_rows_pool)) = 400"
  by (simp add: zero_price_body_def shirt_body_def post_product_def js_def)

text \<open>
  C2, amended. The server does not require a price above 0: with a truthy
  name, description and category, a create request is rejected with the
  validation error exactly when its price is absent or falsy (null, false, 0,
  the empty string). Every other supplied price passes, a negative number
  too.
\<close>

theorem post_product_rejects_only_falsy_price:
  assumes "truthy (body_name b)" and "truthy (body_description b)" and "truthy (body_category b)"
  shows "(status (fst (post_product b p)) = 400 \<longleftrightarrow> \<not> truthy (body_price b)) \<and>
         (\<forall>x. body_price b = Some (JNum (Fin x)) \<and> x \<noteq> 0 \<longrightarrow>
                status (fst (post_product b p)) \<noteq> 400)"
  using assms by (auto simp: post_product_status_400_iff required_truthy_def)


theorem post_product_rejects_only_falsy_price_witness:
  "truthy (body_name negative_price_body) \<and> truthy (body_description negative_price_body) \<and>
   truthy (body_category negative_price_body) \<and>
   body_price negative_price_body = Some (JNum (Fin (- 5))) \<and>
   status (fst (post_product negative_price_body empty_pool)) \<noteq> 400 \<and>
   status (fst (post_product negative_price_body empty_pool)) = 201"
proof -
  have t: "truthy (body_name negative_price_body)" "truthy (body_description negative_price_body)"
    "truthy (body_category negative_price_body)"
    by (simp_all add: negative_price_body_def shirt_body_def js_def)
  have p: "body_price negative_price_body = Some (JNum (Fin (- 5)))"
    by (simp add: negative_price_body_def)
  have e: "status (fst (post_product negative_price_body empty_pool)) = 201"
    using t p by (simp add: post_product_def query_defs empty_pool_def)
  from post_product_rejects_only_falsy_price [OF t, of empty_pool] t p e
  show ?thesis by simp
qed

end
